theory Spec2Isabelle
  imports Main
begin

section \<open>JavaScript values, objects and thrown errors\<close>

text \<open>
  Field values of the example store are untyped (\<^verbatim>\<open>Record<string, any>\<close>). The bridge never
  inspects them, it only moves them around, so a small universe of values is enough.
  \<open>JUndefined\<close> is what reading an absent property gives and what an \<^emph>\<open>unset\<close>
  operation writes. Numbers are kept as integers; no function below computes with them.
\<close>

datatype jsval =
    JUndefined
  | JNull
  | JBool bool
  | JNum int
  | JStr string
  | JArr "jsval list"
  | JObj "(string \<times> jsval) list"

text \<open>
  A plain object used as a dictionary (\<^verbatim>\<open>Record<string, T>\<close>, an object literal) is the map
  of its own properties; the order in which JavaScript enumerates them is not modelled.
  Where the code enumerates an object with \<^verbatim>\<open>Object.entries\<close>, the model takes the list of
  entries that the call returns.
\<close>

type_synonym 'a js_object = "string \<rightharpoonup> 'a"

type_synonym 'a js_entries = "(string \<times> 'a) list"

text \<open>
  The assignment \<^verbatim>\<open>o[k] = v\<close> on such an object. Every key creates or overwrites an own
  property, except \<^verbatim>\<open>__proto__\<close>: that key is an accessor of \<^verbatim>\<open>Object.prototype\<close>, the
  assignment calls its setter and no own property is stored. (The setter replaces the
  prototype when the value is an object; what the object inherits afterwards is not part
  of the model, which keeps the own properties only.)
\<close>

definition obj_set :: "string \<Rightarrow> 'a \<Rightarrow> 'a js_object \<Rightarrow> 'a js_object" where
  "obj_set k v obj = (if k = ''__proto__'' then obj else obj(k \<mapsto> v))"


text \<open>
  The read \<^verbatim>\<open>o[k]\<close> follows the prototype chain: a key that is not an own property but
  names a member of \<^verbatim>\<open>Object.prototype\<close> gives that member (a function, or the prototype
  itself for \<^verbatim>\<open>__proto__\<close>), and only the remaining keys give \<^verbatim>\<open>undefined\<close>.
\<close>

definition object_prototype_keys :: "string list" where
  "object_prototype_keys =
     [''constructor'', ''__defineGetter__'', ''__defineSetter__'', ''hasOwnProperty'',
      ''__lookupGetter__'', ''__lookupSetter__'', ''isPrototypeOf'', ''propertyIsEnumerable'',
      ''toString'', ''valueOf'', ''__proto__'', ''toLocaleString'']"

datatype 'a js_lookup = Own 'a | Inherited | Undefined

definition obj_lookup :: "'a js_object \<Rightarrow> string \<Rightarrow> 'a js_lookup" where
  "obj_lookup obj k =
     (case obj k of
        Some v \<Rightarrow> Own v
      | None \<Rightarrow> if k \<in> set object_prototype_keys then Inherited else Undefined)"

text \<open>
  What the code can throw: \<^verbatim>\<open>new Error(message)\<close>, and the runtime's \<^verbatim>\<open>TypeError\<close> when a
  property of \<^verbatim>\<open>undefined\<close> is read.
\<close>

datatype error = Error string | TypeError

text \<open>\<^verbatim>\<open>Array.prototype.map\<close> with a callback that may throw: the first throw ends the call.\<close>

fun js_map :: "('a \<Rightarrow> error + 'b) \<Rightarrow> 'a list \<Rightarrow> error + 'b list" where
  "js_map f [] = Inr []"
| "js_map f (x # xs) =
     (case f x of
        Inl e \<Rightarrow> Inl e
      | Inr y \<Rightarrow> (case js_map f xs of Inl e \<Rightarrow> Inl e | Inr ys \<Rightarrow> Inr (y # ys)))"

text \<open>\<^verbatim>\<open>Array.prototype.reduce\<close> with an initial value and a callback that may throw.\<close>

fun js_reduce :: "('b \<Rightarrow> 'a \<Rightarrow> error + 'b) \<Rightarrow> 'b \<Rightarrow> 'a list \<Rightarrow> error + 'b" where
  "js_reduce f acc [] = Inr acc"
| "js_reduce f acc (x # xs) =
     (case f acc x of Inl e \<Rightarrow> Inl e | Inr acc' \<Rightarrow> js_reduce f acc' xs)"


section \<open>The data model\<close>

text \<open>The closed vocabulary of field type tags that the three switches range over.\<close>

datatype FieldType =
    T_string | T_url | T_slug | T_text | T_markdown | T_html | T_boolean | T_date
  | T_datetime | T_color | T_number | T_enum | T_file | T_json | T_style | T_richText
  | T_image | T_reference
  | T_object | T_model | T_cross_reference | T_list

text \<open>The tag as the string that the template literals \<^verbatim>\<open>${modelField.type}\<close> print.\<close>

fun type_name :: "FieldType \<Rightarrow> string" where
  "type_name T_string = ''string''"
| "type_name T_url = ''url''"
| "type_name T_slug = ''slug''"
| "type_name T_text = ''text''"
| "type_name T_markdown = ''markdown''"
| "type_name T_html = ''html''"
| "type_name T_boolean = ''boolean''"
| "type_name T_date = ''date''"
| "type_name T_datetime = ''datetime''"
| "type_name T_color = ''color''"
| "type_name T_number = ''number''"
| "type_name T_enum = ''enum''"
| "type_name T_file = ''file''"
| "type_name T_json = ''json''"
| "type_name T_style = ''style''"
| "type_name T_richText = ''richText''"
| "type_name T_image = ''image''"
| "type_name T_reference = ''reference''"
| "type_name T_object = ''object''"
| "type_name T_model = ''model''"
| "type_name T_cross_reference = ''cross-reference''"
| "type_name T_list = ''list''"

text \<open>The two groups of tags the specification names.\<close>

definition scalar_tags :: "FieldType set" where
  "scalar_tags =
     {T_string, T_text, T_markdown, T_date, T_url, T_slug, T_html, T_boolean, T_datetime,
      T_color, T_number, T_enum, T_file, T_json, T_style, T_richText}"

definition composite_tags :: "FieldType set" where
  "composite_tags = {T_object, T_model, T_cross_reference, T_list}"

text \<open>A model field and a model, as far as the bridge reads them (\<^verbatim>\<open>fields\<close> is optional).\<close>

record Field =
  field_name :: string
  field_type :: FieldType

record Model =
  model_name :: string
  model_fields :: "Field list option"

type_synonym ModelMap = "Model js_object"

text \<open>
  A document of the example store; \<open>ex_fields\<close> is \<^verbatim>\<open>Object.entries(document.fields)\<close>.
\<close>

record ExampleDocument =
  ex_id :: string
  ex_type :: string
  ex_status :: string
  ex_createdAt :: string
  ex_updatedAt :: string
  ex_fields :: "jsval js_entries"

text \<open>
  A field object of the host: a type tag and the properties the bridge writes or reads.
  Document fields (written by the document translation) and update-operation fields
  (read by the update applier) are the same plain objects; a property that is absent
  reads as \<open>JUndefined\<close>.
\<close>

record FieldObject =
  fo_type :: FieldType
  fo_value :: jsval
  fo_refType :: jsval
  fo_refId :: jsval

definition value_field :: "FieldType \<Rightarrow> jsval \<Rightarrow> FieldObject" where
  "value_field t v = \<lparr>fo_type = t, fo_value = v, fo_refType = JUndefined, fo_refId = JUndefined\<rparr>"

definition reference_field :: "string \<Rightarrow> jsval \<Rightarrow> FieldObject" where
  "reference_field rt rid =
     \<lparr>fo_type = T_reference, fo_value = JUndefined, fo_refType = JStr rt, fo_refId = rid\<rparr>"

text \<open>A document as the host receives it (\<^verbatim>\<open>context\<close> is always the empty object).\<close>

record Document =
  d_type :: string
  d_id :: string
  d_modelName :: string
  d_status :: string
  d_manageUrl :: string
  d_context :: "jsval js_object"
  d_createdAt :: string
  d_updatedAt :: string
  d_fields :: "FieldObject js_object"


section \<open>Documents of the store to documents of the host\<close>

text \<open>
  The switch over \<^verbatim>\<open>modelField.type\<close> in the reducer of
  \<^verbatim>\<open>convertExampleDocumentsToStackbitDocuments\<close>: the field object built for a native value,
  or the error thrown.
\<close>

fun document_field :: "FieldType \<Rightarrow> jsval \<Rightarrow> error + FieldObject" where
  "document_field T_string v = Inr (value_field T_string v)"
| "document_field T_url v = Inr (value_field T_url v)"
| "document_field T_slug v = Inr (value_field T_slug v)"
| "document_field T_text v = Inr (value_field T_text v)"
| "document_field T_markdown v = Inr (value_field T_markdown v)"
| "document_field T_html v = Inr (value_field T_html v)"
| "document_field T_boolean v = Inr (value_field T_boolean v)"
| "document_field T_date v = Inr (value_field T_date v)"
| "document_field T_datetime v = Inr (value_field T_datetime v)"
| "document_field T_color v = Inr (value_field T_color v)"
| "document_field T_number v = Inr (value_field T_number v)"
| "document_field T_enum v = Inr (value_field T_enum v)"
| "document_field T_file v = Inr (value_field T_file v)"
| "document_field T_json v = Inr (value_field T_json v)"
| "document_field T_style v = Inr (value_field T_style v)"
| "document_field T_richText v = Inr (value_field T_richText v)"
| "document_field T_image v = Inr (reference_field ''asset'' v)"
| "document_field T_reference v = Inr (reference_field ''document'' v)"
| "document_field T_object v = Inl (Error (''field of type '' @ type_name T_object @ '' not implemented''))"
| "document_field T_model v = Inl (Error (''field of type '' @ type_name T_model @ '' not implemented''))"
| "document_field T_cross_reference v =
     Inl (Error (''field of type '' @ type_name T_cross_reference @ '' not implemented''))"
| "document_field T_list v = Inl (Error (''field of type '' @ type_name T_list @ '' not implemented''))"

text \<open>
  The reducer over \<^verbatim>\<open>Object.entries(document.fields)\<close>. \<open>model\<close> is the result of
  \<^verbatim>\<open>modelMap[document.type]\<close>. Reading \<^verbatim>\<open>model.fields\<close> throws when it is \<^verbatim>\<open>undefined\<close>; an
  inherited member of the map has no \<^verbatim>\<open>fields\<close>, a model may have none, and a field list
  may lack the name: in these cases \<^verbatim>\<open>model.fields?.find(...)\<close> is \<^verbatim>\<open>undefined\<close> and the
  accumulator is returned as it is.
\<close>

definition reduce_field ::
  "Model js_lookup \<Rightarrow> FieldObject js_object \<Rightarrow> string \<times> jsval \<Rightarrow> error + FieldObject js_object" where
  "reduce_field model flds entry =
     (case entry of (fieldName, fieldValue) \<Rightarrow>
        (case model of
           Undefined \<Rightarrow> Inl TypeError
         | Inherited \<Rightarrow> Inr flds
         | Own m \<Rightarrow>
             (case (case model_fields m of
                      None \<Rightarrow> None
                    | Some fs \<Rightarrow> find (\<lambda>field. field_name field = fieldName) fs) of
                None \<Rightarrow> Inr flds
              | Some modelField \<Rightarrow>
                  (case document_field (field_type modelField) fieldValue of
                     Inl e \<Rightarrow> Inl e
                   | Inr fld \<Rightarrow> Inr (obj_set fieldName fld flds)))))"

text \<open>The status expression of the object literal.\<close>

definition document_status :: "string \<Rightarrow> string" where
  "document_status s =
     (if s = ''draft'' then ''added'' else if s = ''published'' then ''published'' else ''modified'')"

text \<open>The callback of \<^verbatim>\<open>documents.map\<close>: one native document to one host document.\<close>

definition convert_document :: "ModelMap \<Rightarrow> string \<Rightarrow> ExampleDocument \<Rightarrow> error + Document" where
  "convert_document modelMap manageUrl document =
     (let model = obj_lookup modelMap (ex_type document) in
      case js_reduce (reduce_field model) Map.empty (ex_fields document) of
        Inl e \<Rightarrow> Inl e
      | Inr flds \<Rightarrow>
          Inr \<lparr>d_type = ''document'',
               d_id = ex_id document,
               d_modelName = ex_type document,
               d_status = document_status (ex_status document),
               d_manageUrl = manageUrl @ ''/document/'' @ ex_id document,
               d_context = Map.empty,
               d_createdAt = ex_createdAt document,
               d_updatedAt = ex_updatedAt document,
               d_fields = flds\<rparr>)"

definition convertExampleDocumentsToStackbitDocuments ::
  "ExampleDocument list \<Rightarrow> ModelMap \<Rightarrow> string \<Rightarrow> error + Document list" where
  "convertExampleDocumentsToStackbitDocuments documents modelMap manageUrl =
     js_map (convert_document modelMap manageUrl) documents"


section \<open>Assets of the store to assets of the host\<close>

record ExampleAsset =
  ea_id :: string
  ea_createdAt :: string
  ea_updatedAt :: string
  ea_title :: string
  ea_url :: string
  ea_width :: int
  ea_height :: int

text \<open>The \<^verbatim>\<open>file\<close> field of an asset: \<^verbatim>\<open>{type: 'assetFile', url, dimensions: {width, height}}\<close>.\<close>

record AssetFile =
  af_type :: string
  af_url :: string
  af_width :: int
  af_height :: int

record Asset =
  as_type :: string
  as_id :: string
  as_createdAt :: string
  as_updatedAt :: string
  as_status :: string
  as_manageUrl :: string
  as_context :: "jsval js_object"
  as_title :: FieldObject
  as_file :: AssetFile

definition convert_asset :: "string \<Rightarrow> string \<Rightarrow> ExampleAsset \<Rightarrow> Asset" where
  "convert_asset manageUrl siteLocalhost asset =
     \<lparr>as_type = ''asset'',
      as_id = ea_id asset,
      as_createdAt = ea_createdAt asset,
      as_updatedAt = ea_updatedAt asset,
      as_status = ''published'',
      as_manageUrl = manageUrl @ ''/assets/'' @ ea_id asset,
      as_context = Map.empty,
      as_title = value_field T_string (JStr (ea_title asset)),
      as_file = \<lparr>af_type = ''assetFile'',
                 af_url = siteLocalhost @ ea_url asset,
                 af_width = ea_width asset,
                 af_height = ea_height asset\<rparr>\<rparr>"

definition convertExampleAssetToStackbitAssets ::
  "ExampleAsset list \<Rightarrow> string \<Rightarrow> string \<Rightarrow> Asset list" where
  "convertExampleAssetToStackbitAssets assets manageUrl siteLocalhost =
     map (convert_asset manageUrl siteLocalhost) assets"


section \<open>Update operations to fields of the store\<close>

text \<open>
  The switch of \<^verbatim>\<open>convertUpdateOperationFieldToExampleDocumentField\<close>: sixteen tags return
  \<^verbatim>\<open>.value\<close>, \<^verbatim>\<open>reference\<close> returns \<^verbatim>\<open>.refId\<close>, and \<^verbatim>\<open>image\<close> stands with the four
  composite tags in the group that throws.
\<close>

definition convertUpdateOperationFieldToExampleDocumentField :: "FieldObject \<Rightarrow> error + jsval" where
  "convertUpdateOperationFieldToExampleDocumentField updateOperationField =
     (case fo_type updateOperationField of
        T_string \<Rightarrow> Inr (fo_value updateOperationField)
      | T_url \<Rightarrow> Inr (fo_value updateOperationField)
      | T_slug \<Rightarrow> Inr (fo_value updateOperationField)
      | T_text \<Rightarrow> Inr (fo_value updateOperationField)
      | T_markdown \<Rightarrow> Inr (fo_value updateOperationField)
      | T_html \<Rightarrow> Inr (fo_value updateOperationField)
      | T_boolean \<Rightarrow> Inr (fo_value updateOperationField)
      | T_date \<Rightarrow> Inr (fo_value updateOperationField)
      | T_datetime \<Rightarrow> Inr (fo_value updateOperationField)
      | T_color \<Rightarrow> Inr (fo_value updateOperationField)
      | T_number \<Rightarrow> Inr (fo_value updateOperationField)
      | T_enum \<Rightarrow> Inr (fo_value updateOperationField)
      | T_file \<Rightarrow> Inr (fo_value updateOperationField)
      | T_json \<Rightarrow> Inr (fo_value updateOperationField)
      | T_style \<Rightarrow> Inr (fo_value updateOperationField)
      | T_richText \<Rightarrow> Inr (fo_value updateOperationField)
      | T_reference \<Rightarrow> Inr (fo_refId updateOperationField)
      | T_image \<Rightarrow>
          Inl (Error (''updating field of type '' @ type_name T_image @ '' not implemented''))
      | T_object \<Rightarrow>
          Inl (Error (''updating field of type '' @ type_name T_object @ '' not implemented''))
      | T_model \<Rightarrow>
          Inl (Error (''updating field of type '' @ type_name T_model @ '' not implemented''))
      | T_cross_reference \<Rightarrow>
          Inl (Error (''updating field of type '' @ type_name T_cross_reference @ '' not implemented''))
      | T_list \<Rightarrow>
          Inl (Error (''updating field of type '' @ type_name T_list @ '' not implemented'')))"

text \<open>
  The loop of \<^verbatim>\<open>convertUpdateOperationFieldsToExampleDocumentFields\<close>; its argument is
  \<^verbatim>\<open>Object.entries(updateOperationFields)\<close>.
\<close>

definition fields_step :: "jsval js_object \<Rightarrow> string \<times> FieldObject \<Rightarrow> error + jsval js_object" where
  "fields_step flds entry =
     (case entry of (fieldName, updateOperationField) \<Rightarrow>
        (case convertUpdateOperationFieldToExampleDocumentField updateOperationField of
           Inl e \<Rightarrow> Inl e
         | Inr v \<Rightarrow> Inr (obj_set fieldName v flds)))"

definition convertUpdateOperationFieldsToExampleDocumentFields ::
  "FieldObject js_entries \<Rightarrow> error + jsval js_object" where
  "convertUpdateOperationFieldsToExampleDocumentFields updateOperationFields =
     js_reduce fields_step Map.empty updateOperationFields"










section \<open>The content source object\<close>

text \<open>
  The instance after \<^verbatim>\<open>init\<close>: the constructor's values, the \<^verbatim>\<open>localDev\<close> flag, and the
  optional handle of the running observer. The loggers only print and are left out.
\<close>

record ContentSource =
  cs_projectId :: string
  cs_databaseFilePath :: "string option"
  cs_manageUrl :: string
  cs_siteLocalhost :: string
  cs_localDev :: bool
  cs_observerId :: "string option"

text \<open>
  The constructor followed by \<^verbatim>\<open>init\<close>. \<^verbatim>\<open>!projectId\<close> holds for the empty string;
  \<^verbatim>\<open>siteLocalhost ?? d\<close> takes the default only when the option is absent.
\<close>

definition new_ContentSource ::
  "string \<Rightarrow> string option \<Rightarrow> string option \<Rightarrow> bool \<Rightarrow> error + ContentSource" where
  "new_ContentSource pid dbPath site isLocalDev =
     (if pid = [] then Inl (Error ''ExampleContentSource requires projectId'')
      else Inr \<lparr>cs_projectId = pid,
                cs_databaseFilePath = dbPath,
                cs_manageUrl = ''https://example.com/project/'' @ pid,
                cs_siteLocalhost = (case site of None \<Rightarrow> ''http://localhost:3000'' | Some u \<Rightarrow> u),
                cs_localDev = isLocalDev,
                cs_observerId = None\<rparr>)"

text \<open>Truthiness of an optional string: \<^verbatim>\<open>undefined\<close> and the empty string are falsy.\<close>

fun truthy :: "string option \<Rightarrow> bool" where
  "truthy None = False"
| "truthy (Some s) = (s \<noteq> [])"

subsection \<open>Capability probe\<close>

record Access =
  hasConnection :: bool
  hasPermissions :: bool

text \<open>\<^verbatim>\<open>hasAccess\<close>: the check of the user context is commented out in the source.\<close>

definition hasAccess :: "ContentSource \<Rightarrow> unit option \<Rightarrow> Access" where
  "hasAccess this userContext =
     (if cs_localDev this then \<lparr>hasConnection = True, hasPermissions = True\<rparr>
      else \<lparr>hasConnection = True, hasPermissions = True\<rparr>)"

subsection \<open>Watching content updates\<close>

text \<open>
  The store client is not part of this code; what the bridge does to it is recorded as the
  list of calls it makes. The handle that \<^verbatim>\<open>startObservingContentChanges\<close> returns is an
  input of the model.
\<close>

datatype client_call =
    StartObservingContentChanges
  | StopObservingContentChanges string

text \<open>\<^verbatim>\<open>stopWatchingContentUpdates\<close>: the stored handle is used and is not cleared.\<close>

definition stopWatchingContentUpdates :: "ContentSource \<Rightarrow> ContentSource \<times> client_call list" where
  "stopWatchingContentUpdates this =
     (case cs_observerId this of
        Some h \<Rightarrow> (if truthy (Some h) then (this, [StopObservingContentChanges h]) else (this, []))
      | None \<Rightarrow> (this, []))"

definition startWatchingContentUpdates ::
  "string \<Rightarrow> ContentSource \<Rightarrow> ContentSource \<times> client_call list" where
  "startWatchingContentUpdates newId this =
     (let (this1, calls1) =
            (if truthy (cs_observerId this) then stopWatchingContentUpdates this else (this, []))
      in (this1\<lparr>cs_observerId := Some newId\<rparr>, calls1 @ [StartObservingContentChanges]))"

text \<open>Events of the store, and the batch built for the host.\<close>

datatype ExampleEvent =
    DocumentCreated ExampleDocument
  | DocumentUpdated ExampleDocument
  | DocumentDeleted string
  | AssetCreated ExampleAsset
  | OtherEvent string

record ContentChangeEvent =
  cc_documents :: "Document list"
  cc_assets :: "Asset list"
  cc_deletedDocumentIds :: "string list"
  cc_deletedAssetIds :: "string list"

text \<open>
  The document branch of the loop: the single document is translated with the model map
  that \<^verbatim>\<open>getModelMap()\<close> returns and element \<^verbatim>\<open>[0]\<close> of the result is pushed. The translation
  of a one-element array has one element when it returns.
\<close>

definition push_document ::
  "ContentSource \<Rightarrow> ModelMap \<Rightarrow> ContentChangeEvent \<Rightarrow> ExampleDocument \<Rightarrow> error + ContentChangeEvent" where
  "push_document this modelMap contentChange document =
     (case convertExampleDocumentsToStackbitDocuments [document] modelMap (cs_manageUrl this) of
        Inl e \<Rightarrow> Inl e
      | Inr ds \<Rightarrow> Inr (contentChange\<lparr>cc_documents := cc_documents contentChange @ [hd ds]\<rparr>))"

text \<open>
  The body of the loop over the events of one notification. The loop is synchronous, so
  every call of the host's \<^verbatim>\<open>getModelMap\<close> within it sees the same map.
\<close>

fun event_step ::
  "ContentSource \<Rightarrow> ModelMap \<Rightarrow> ContentChangeEvent \<Rightarrow> ExampleEvent \<Rightarrow> error + ContentChangeEvent" where
  "event_step this modelMap contentChange (DocumentCreated document) =
     push_document this modelMap contentChange document"
| "event_step this modelMap contentChange (DocumentUpdated document) =
     push_document this modelMap contentChange document"
| "event_step this modelMap contentChange (DocumentDeleted documentId) =
     Inr (contentChange\<lparr>cc_deletedDocumentIds := cc_deletedDocumentIds contentChange @ [documentId]\<rparr>)"
| "event_step this modelMap contentChange (AssetCreated asset) =
     Inr (contentChange\<lparr>cc_assets := cc_assets contentChange @
            [hd (convertExampleAssetToStackbitAssets [asset] (cs_manageUrl this) (cs_siteLocalhost this))]\<rparr>)"
| "event_step this modelMap contentChange (OtherEvent name) = Inr contentChange"

text \<open>The callback given to the store client: the batch for one list of events.\<close>

definition observer_callback ::
  "ContentSource \<Rightarrow> ModelMap \<Rightarrow> ExampleEvent list \<Rightarrow> error + ContentChangeEvent" where
  "observer_callback this modelMap events =
     js_reduce (event_step this modelMap)
       \<lparr>cc_documents = [], cc_assets = [], cc_deletedDocumentIds = [], cc_deletedAssetIds = []\<rparr> events"

subsection \<open>Uploading an asset\<close>

record UploadOptions =
  up_url :: "string option"
  up_base64 :: "string option"
  up_fileName :: string
  up_mimeType :: string
  up_locale :: "string option"

record UploadRequest =
  rq_url :: string
  rq_title :: string
  rq_width :: int
  rq_height :: int

text \<open>
  \<^verbatim>\<open>uploadAsset\<close>. The store client's \<^verbatim>\<open>uploadAsset\<close> is a parameter: given the request it
  returns the stored asset or throws. \<^verbatim>\<open>!options.url\<close> holds when the URL is absent and
  when it is the empty string.
\<close>

definition uploadAsset ::
  "ContentSource \<Rightarrow> (UploadRequest \<Rightarrow> error + ExampleAsset) \<Rightarrow> UploadOptions \<Rightarrow> error + Asset" where
  "uploadAsset this clientUploadAsset options =
     (case up_url options of
        None \<Rightarrow> Inl (Error ''uploading assets from base64 is not supported'')
      | Some u \<Rightarrow>
          (if \<not> truthy (Some u) then Inl (Error ''uploading assets from base64 is not supported'')
           else
             (case clientUploadAsset
                     \<lparr>rq_url = u, rq_title = up_fileName options, rq_width = 100, rq_height = 100\<rparr> of
                Inl e \<Rightarrow> Inl e
              | Inr asset \<Rightarrow>
                  Inr (hd (convertExampleAssetToStackbitAssets [asset]
                             (cs_manageUrl this) (cs_siteLocalhost this))))))"


section \<open>Properties of the array helpers\<close>

lemma js_map_Inr_length: "js_map f xs = Inr ys \<Longrightarrow> length ys = length xs"
  by (induction xs arbitrary: ys) (auto split: sum.splits)

lemma js_map_Inr_nth:
  "js_map f xs = Inr ys \<Longrightarrow> i < length xs \<Longrightarrow> f (xs ! i) = Inr (ys ! i)"
proof (induction xs arbitrary: ys i)
  case Nil
  then show ?case by simp
next
  case (Cons x xs)
  then show ?case by (cases i) (auto split: sum.splits)
qed

lemma js_map_append:
  "js_map f (xs @ zs) =
     (case js_map f xs of
        Inl e \<Rightarrow> Inl e
      | Inr ys \<Rightarrow> (case js_map f zs of Inl e \<Rightarrow> Inl e | Inr ws \<Rightarrow> Inr (ys @ ws)))"
  by (induction xs) (auto split: sum.splits)



lemma js_map_singleton: "js_map f [x] = Inr ys \<Longrightarrow> \<exists>y. ys = [y] \<and> f x = Inr y"
  by (auto split: sum.splits)


section \<open>Documents whose model is missing\<close>

lemma obj_lookup_own: "modelMap k = Some m \<Longrightarrow> obj_lookup modelMap k = Own m"
  by (simp add: obj_lookup_def)

lemma obj_lookup_missing:
  "modelMap k = None \<Longrightarrow>
   obj_lookup modelMap k = (if k \<in> set object_prototype_keys then Inherited else Undefined)"
  by (simp add: obj_lookup_def)

lemma js_reduce_undefined:
  "js_reduce (reduce_field Undefined) flds entries =
     (if entries = [] then Inr flds else Inl TypeError)"
  by (cases entries) (simp_all add: reduce_field_def split: prod.splits)

lemma js_reduce_inherited: "js_reduce (reduce_field Inherited) flds entries = Inr flds"
  by (induction entries) (simp_all add: reduce_field_def split: prod.splits)

lemma convert_document_no_model:
  "modelMap (ex_type document) = None \<Longrightarrow>
   convert_document modelMap manageUrl document =
     (if ex_fields document \<noteq> [] \<and> ex_type document \<notin> set object_prototype_keys
      then Inl TypeError
      else
        Inr \<lparr>d_type = ''document'', d_id = ex_id document, d_modelName = ex_type document,
             d_status = document_status (ex_status document),
             d_manageUrl = manageUrl @ ''/document/'' @ ex_id document, d_context = Map.empty,
             d_createdAt = ex_createdAt document, d_updatedAt = ex_updatedAt document,
             d_fields = Map.empty\<rparr>)"
  by (simp add: convert_document_def obj_lookup_missing js_reduce_undefined js_reduce_inherited)

text \<open>
  Claim C1, as the specification states it: a document whose type has no entry in the
  model map is still translated, with an empty field map, and the call does not fail.
  The code reads \<^verbatim>\<open>model.fields\<close> for every entry of the document's fields, so the claim
  fails for a document that has a field and whose type the map does not even inherit: the
  post \<open>p1\<close> with a title, translated with an empty model map, ends the call with a
  \<^verbatim>\<open>TypeError\<close>.
\<close>

theorem modelless_document_counterexample:
  "convertExampleDocumentsToStackbitDocuments
     [\<lparr>ex_id = ''p1'', ex_type = ''post'', ex_status = ''draft'', ex_createdAt = ''2023-01-01'',
       ex_updatedAt = ''2023-01-02'', ex_fields = [(''title'', JStr ''Hi'')]\<rparr>]
     Map.empty ''https://example.com/project/example'' = Inl TypeError"
  by (simp add: convertExampleDocumentsToStackbitDocuments_def convert_document_def
      reduce_field_def obj_lookup_def object_prototype_keys_def)

text \<open>
  Claim C1, amended: for a document whose type has no entry in the model map, wherever it
  stands in the array (the documents before it being translated), the translation yields
  the document with an empty field map when the document has no fields, and also when its
  type is the name of a member that every plain object inherits (\<^verbatim>\<open>constructor\<close>,
  \<^verbatim>\<open>toString\<close>, ...), for which the lookup finds the inherited member and every field is
  dropped; in every other case the call fails with a \<^verbatim>\<open>TypeError\<close>. The rest of the array
  is translated as usual.
\<close>

theorem modelless_document:
  assumes "modelMap (ex_type document) = None"
  shows "convertExampleDocumentsToStackbitDocuments (before @ document # after) modelMap manageUrl =
     (case convertExampleDocumentsToStackbitDocuments before modelMap manageUrl of
        Inl e \<Rightarrow> Inl e
      | Inr out1 \<Rightarrow>
          if ex_fields document \<noteq> [] \<and> ex_type document \<notin> set object_prototype_keys
          then Inl TypeError
          else (case convertExampleDocumentsToStackbitDocuments after modelMap manageUrl of
                  Inl e \<Rightarrow> Inl e
                | Inr out2 \<Rightarrow>
                    Inr (out1 @
                      \<lparr>d_type = ''document'', d_id = ex_id document, d_modelName = ex_type document,
                       d_status = document_status (ex_status document),
                       d_manageUrl = manageUrl @ ''/document/'' @ ex_id document,
                       d_context = Map.empty,
                       d_createdAt = ex_createdAt document, d_updatedAt = ex_updatedAt document,
                       d_fields = Map.empty\<rparr> # out2)))"
  using assms
  by (simp add: convertExampleDocumentsToStackbitDocuments_def js_map_append
      convert_document_no_model split: sum.splits)

theorem modelless_document_witness:
  "convertExampleDocumentsToStackbitDocuments
     [\<lparr>ex_id = ''p1'', ex_type = ''post'', ex_status = ''draft'', ex_createdAt = ''2023-01-01'',
       ex_updatedAt = ''2023-01-02'', ex_fields = []\<rparr>,
      \<lparr>ex_id = ''p2'', ex_type = ''constructor'', ex_status = ''published'',
       ex_createdAt = ''2023-01-01'', ex_updatedAt = ''2023-01-02'',
       ex_fields = [(''title'', JStr ''Hi'')]\<rparr>]
     Map.empty ''https://example.com/project/example'' =
   Inr [\<lparr>d_type = ''document'', d_id = ''p1'', d_modelName = ''post'', d_status = ''added'',
         d_manageUrl = ''https://example.com/project/example/document/p1'', d_context = Map.empty,
         d_createdAt = ''2023-01-01'', d_updatedAt = ''2023-01-02'', d_fields = Map.empty\<rparr>,
        \<lparr>d_type = ''document'', d_id = ''p2'', d_modelName = ''constructor'',
         d_status = ''published'',
         d_manageUrl = ''https://example.com/project/example/document/p2'', d_context = Map.empty,
         d_createdAt = ''2023-01-01'', d_updatedAt = ''2023-01-02'', d_fields = Map.empty\<rparr>]"
proof -
  let ?p1 = "\<lparr>ex_id = ''p1'', ex_type = ''post'', ex_status = ''draft'',
      ex_createdAt = ''2023-01-01'', ex_updatedAt = ''2023-01-02'', ex_fields = []\<rparr>"
  let ?p2 = "\<lparr>ex_id = ''p2'', ex_type = ''constructor'', ex_status = ''published'',
      ex_createdAt = ''2023-01-01'', ex_updatedAt = ''2023-01-02'',
      ex_fields = [(''title'', JStr ''Hi'')]\<rparr>"
  have h: "Map.empty (ex_type ?p2) = (None :: Model option)" by simp
  have b: "convertExampleDocumentsToStackbitDocuments [?p1] Map.empty
      ''https://example.com/project/example'' =
    Inr [\<lparr>d_type = ''document'', d_id = ''p1'', d_modelName = ''post'', d_status = ''added'',
         d_manageUrl = ''https://example.com/project/example/document/p1'', d_context = Map.empty,
         d_createdAt = ''2023-01-01'', d_updatedAt = ''2023-01-02'', d_fields = Map.empty\<rparr>]"
    by (simp add: convertExampleDocumentsToStackbitDocuments_def convert_document_def
        document_status_def)
  show ?thesis
    using modelless_document [OF h, where before = "[?p1]" and after = "[]"
        and manageUrl = "''https://example.com/project/example''"] b
    by (simp add: convertExampleDocumentsToStackbitDocuments_def document_status_def
        object_prototype_keys_def)
qed


section \<open>The field codec\<close>

lemma document_field_scalar: "t \<in> scalar_tags \<Longrightarrow> document_field t v = Inr (value_field t v)"
  by (cases t) (simp_all add: scalar_tags_def)

lemma update_field_scalar:
  "fo_type u \<in> scalar_tags \<Longrightarrow> convertUpdateOperationFieldToExampleDocumentField u = Inr (fo_value u)"
  by (cases "fo_type u")
    (simp_all add: scalar_tags_def convertUpdateOperationFieldToExampleDocumentField_def)

lemma document_field_composite:
  "t \<in> composite_tags \<Longrightarrow>
   document_field t v = Inl (Error (''field of type '' @ type_name t @ '' not implemented''))"
  by (cases t) (simp_all add: composite_tags_def)

lemma document_field_not_composite:
  "t \<notin> composite_tags \<Longrightarrow> \<exists>fld. document_field t v = Inr fld"
  by (cases t) (simp_all add: composite_tags_def)

lemma update_field_composite:
  "fo_type u \<in> composite_tags \<Longrightarrow>
   convertUpdateOperationFieldToExampleDocumentField u =
     Inl (Error (''updating field of type '' @ type_name (fo_type u) @ '' not implemented''))"
  by (cases "fo_type u")
    (simp_all add: composite_tags_def convertUpdateOperationFieldToExampleDocumentField_def)

text \<open>
  Claim C4: for each of the sixteen scalar tags and every value, building the document
  field and converting it back gives the value, converting an update field and building
  the document field from the result gives the field back, and the value inside is the
  one passed in, in both directions.
\<close>

theorem scalar_round_trip:
  assumes "t \<in> scalar_tags"
  shows "(case document_field t v of
            Inl e \<Rightarrow> Inl e
          | Inr fld \<Rightarrow> convertUpdateOperationFieldToExampleDocumentField fld) = Inr v
       \<and> (case convertUpdateOperationFieldToExampleDocumentField (value_field t v) of
            Inl e \<Rightarrow> Inl e
          | Inr w \<Rightarrow> document_field t w) = Inr (value_field t v)
       \<and> document_field t v = Inr (value_field t v)
       \<and> convertUpdateOperationFieldToExampleDocumentField (u\<lparr>fo_type := t\<rparr>) = Inr (fo_value u)"
proof -
  have a: "document_field t v = Inr (value_field t v)"
    using assms by (rule document_field_scalar)
  have "fo_type (value_field t v) \<in> scalar_tags"
    using assms by (simp add: value_field_def)
  then have "convertUpdateOperationFieldToExampleDocumentField (value_field t v) =
      Inr (fo_value (value_field t v))"
    by (rule update_field_scalar)
  then have b: "convertUpdateOperationFieldToExampleDocumentField (value_field t v) = Inr v"
    by (simp add: value_field_def)
  have "fo_type (u\<lparr>fo_type := t\<rparr>) \<in> scalar_tags"
    using assms by simp
  then have "convertUpdateOperationFieldToExampleDocumentField (u\<lparr>fo_type := t\<rparr>) =
      Inr (fo_value (u\<lparr>fo_type := t\<rparr>))"
    by (rule update_field_scalar)
  then have c: "convertUpdateOperationFieldToExampleDocumentField (u\<lparr>fo_type := t\<rparr>) = Inr (fo_value u)"
    by simp
  show ?thesis by (simp add: a b c)
qed

theorem scalar_round_trip_witness:
  "T_markdown \<in> scalar_tags
   \<and> (case document_field T_markdown (JStr ''# Hi'') of
        Inl e \<Rightarrow> Inl e
      | Inr fld \<Rightarrow> convertUpdateOperationFieldToExampleDocumentField fld) = Inr (JStr ''# Hi'')
   \<and> (case convertUpdateOperationFieldToExampleDocumentField (value_field T_markdown (JStr ''# Hi'')) of
        Inl e \<Rightarrow> Inl e
      | Inr w \<Rightarrow> document_field T_markdown w) = Inr (value_field T_markdown (JStr ''# Hi''))"
proof -
  have h: "T_markdown \<in> scalar_tags" by (simp add: scalar_tags_def)
  show ?thesis using h scalar_round_trip [OF h, of "JStr ''# Hi''"] by simp
qed

text \<open>
  Claim C2, as the specification states it: converting an update field tagged
  \<^verbatim>\<open>image\<close> returns the id of the referenced asset. The switch has \<^verbatim>\<open>image\<close> in the group
  that throws: the update field that refers to the asset \<open>a1\<close> is rejected.
\<close>

theorem image_update_counterexample:
  "convertUpdateOperationFieldToExampleDocumentField
     \<lparr>fo_type = T_image, fo_value = JUndefined, fo_refType = JStr ''asset'', fo_refId = JStr ''a1''\<rparr>
   = Inl (Error ''updating field of type image not implemented'')"
  by (simp add: convertUpdateOperationFieldToExampleDocumentField_def)

text \<open>
  Claim C2, amended: converting an update field tagged \<^verbatim>\<open>image\<close> fails, whatever the field
  carries, with the error that names the tag.
\<close>

theorem image_update_unsupported:
  assumes "fo_type updateOperationField = T_image"
  shows "convertUpdateOperationFieldToExampleDocumentField updateOperationField =
           Inl (Error ''updating field of type image not implemented'')"
  using assms by (simp add: convertUpdateOperationFieldToExampleDocumentField_def)

theorem image_update_unsupported_witness:
  "fo_type (value_field T_image (JStr ''a1'')) = T_image
   \<and> convertUpdateOperationFieldToExampleDocumentField (value_field T_image (JStr ''a1'')) =
       Inl (Error ''updating field of type image not implemented'')"
proof -
  have h: "fo_type (value_field T_image (JStr ''a1'')) = T_image" by (simp add: value_field_def)
  show ?thesis using h image_update_unsupported [OF h] by simp
qed


section \<open>Composite tags\<close>

lemma reduce_field_harmless:
  assumes "model_fields m = Some fs"
    and "\<forall>f'. find (\<lambda>f. field_name f = fst e) fs = Some f' \<longrightarrow> field_type f' \<notin> composite_tags"
  shows "\<exists>acc'. reduce_field (Own m) acc e = Inr acc'"
proof -
  obtain k' v' where e: "e = (k', v')" by (cases e)
  show ?thesis
  proof (cases "find (\<lambda>f. field_name f = k') fs")
    case None
    with assms(1) e show ?thesis by (simp add: reduce_field_def)
  next
    case (Some f')
    with assms(2) e have "field_type f' \<notin> composite_tags" by simp
    then obtain fld where "document_field (field_type f') v' = Inr fld"
      using document_field_not_composite by blast
    with Some assms(1) e show ?thesis by (simp add: reduce_field_def)
  qed
qed

lemma reduce_field_composite:
  assumes "model_fields m = Some fs"
    and "find (\<lambda>f. field_name f = k) fs = Some f" and "field_type f \<in> composite_tags"
  shows "reduce_field (Own m) acc (k, v) =
           Inl (Error (''field of type '' @ type_name (field_type f) @ '' not implemented''))"
  using assms by (simp add: reduce_field_def document_field_composite)

lemma js_reduce_first_composite:
  assumes "model_fields m = Some fs"
    and "find (\<lambda>f. field_name f = k) fs = Some f" and "field_type f \<in> composite_tags"
    and "\<forall>e\<in>set pre. \<forall>f'. find (\<lambda>f. field_name f = fst e) fs = Some f' \<longrightarrow>
           field_type f' \<notin> composite_tags"
  shows "js_reduce (reduce_field (Own m)) acc (pre @ (k, v) # post) =
           Inl (Error (''field of type '' @ type_name (field_type f) @ '' not implemented''))"
  using assms(4)
proof (induction pre arbitrary: acc)
  case Nil
  show ?case using reduce_field_composite [OF assms(1-3)] by simp
next
  case (Cons e pre)
  from Cons.prems obtain acc' where "reduce_field (Own m) acc e = Inr acc'"
    using reduce_field_harmless [OF assms(1), of e acc] by auto
  moreover have "js_reduce (reduce_field (Own m)) acc' (pre @ (k, v) # post) =
      Inl (Error (''field of type '' @ type_name (field_type f) @ '' not implemented''))"
    using Cons.IH Cons.prems by simp
  ultimately show ?case by simp
qed

text \<open>
  Claim C7: for each of the four composite tags both directions fail with an error whose
  message names the tag. The document switch and the update switch throw for the tag; and
  the translation of an array of documents fails with that error at the first document
  field whose model field has the tag, when everything before it was translated.
\<close>

theorem composite_tags_unsupported:
  assumes "t \<in> composite_tags"
  shows "document_field t v = Inl (Error (''field of type '' @ type_name t @ '' not implemented''))
       \<and> convertUpdateOperationFieldToExampleDocumentField (u\<lparr>fo_type := t\<rparr>) =
           Inl (Error (''updating field of type '' @ type_name t @ '' not implemented''))
       \<and> (convertExampleDocumentsToStackbitDocuments before modelMap manageUrl = Inr out1
            \<and> modelMap (ex_type document) = Some m \<and> model_fields m = Some fs
            \<and> ex_fields document = pre @ (k, fieldValue) # post
            \<and> find (\<lambda>f. field_name f = k) fs = Some f \<and> field_type f = t
            \<and> (\<forall>e\<in>set pre. \<forall>f'. find (\<lambda>f. field_name f = fst e) fs = Some f' \<longrightarrow>
                   field_type f' \<notin> composite_tags)
          \<longrightarrow> convertExampleDocumentsToStackbitDocuments (before @ document # after) modelMap manageUrl =
                Inl (Error (''field of type '' @ type_name t @ '' not implemented'')))"
proof (intro conjI impI)
  show "document_field t v = Inl (Error (''field of type '' @ type_name t @ '' not implemented''))"
    using assms by (rule document_field_composite)
next
  have "fo_type (u\<lparr>fo_type := t\<rparr>) \<in> composite_tags" using assms by simp
  from update_field_composite [OF this]
  show "convertUpdateOperationFieldToExampleDocumentField (u\<lparr>fo_type := t\<rparr>) =
      Inl (Error (''updating field of type '' @ type_name t @ '' not implemented''))"
    by simp
next
  assume h: "convertExampleDocumentsToStackbitDocuments before modelMap manageUrl = Inr out1
            \<and> modelMap (ex_type document) = Some m \<and> model_fields m = Some fs
            \<and> ex_fields document = pre @ (k, fieldValue) # post
            \<and> find (\<lambda>f. field_name f = k) fs = Some f \<and> field_type f = t
            \<and> (\<forall>e\<in>set pre. \<forall>f'. find (\<lambda>f. field_name f = fst e) fs = Some f' \<longrightarrow>
                   field_type f' \<notin> composite_tags)"
  then have c: "field_type f \<in> composite_tags" using assms by simp
  from h have "js_reduce (reduce_field (Own m)) Map.empty (pre @ (k, fieldValue) # post) =
      Inl (Error (''field of type '' @ type_name (field_type f) @ '' not implemented''))"
    using js_reduce_first_composite [where m = m and fs = fs and k = k and f = f and pre = pre] c
    by blast
  with h have "convert_document modelMap manageUrl document =
      Inl (Error (''field of type '' @ type_name t @ '' not implemented''))"
    by (simp add: convert_document_def obj_lookup_own)
  with h show "convertExampleDocumentsToStackbitDocuments (before @ document # after) modelMap manageUrl =
      Inl (Error (''field of type '' @ type_name t @ '' not implemented''))"
    by (simp add: convertExampleDocumentsToStackbitDocuments_def js_map_append)
qed

theorem composite_tags_unsupported_witness:
  "T_list \<in> composite_tags
   \<and> document_field T_list (JArr []) = Inl (Error ''field of type list not implemented'')
   \<and> convertUpdateOperationFieldToExampleDocumentField (value_field T_list (JArr [])) =
       Inl (Error ''updating field of type list not implemented'')
   \<and> convertExampleDocumentsToStackbitDocuments
       [\<lparr>ex_id = ''p1'', ex_type = ''post'', ex_status = ''draft'', ex_createdAt = ''2023-01-01'',
         ex_updatedAt = ''2023-01-02'',
         ex_fields = [(''title'', JStr ''Hi''), (''tags'', JArr [JStr ''a''])]\<rparr>]
       [''post'' \<mapsto> \<lparr>model_name = ''post'', model_fields =
          Some [\<lparr>field_name = ''title'', field_type = T_string\<rparr>,
                \<lparr>field_name = ''tags'', field_type = T_list\<rparr>]\<rparr>]
       ''https://example.com/project/example'' =
     Inl (Error ''field of type list not implemented'')"
proof -
  have h: "T_list \<in> composite_tags" by (simp add: composite_tags_def)
  have b: "convertExampleDocumentsToStackbitDocuments []
       [''post'' \<mapsto> \<lparr>model_name = ''post'', model_fields =
          Some [\<lparr>field_name = ''title'', field_type = T_string\<rparr>,
                \<lparr>field_name = ''tags'', field_type = T_list\<rparr>]\<rparr>]
       ''https://example.com/project/example'' = Inr []"
    by (simp add: convertExampleDocumentsToStackbitDocuments_def)
  show ?thesis
    using h b composite_tags_unsupported [OF h, where v = "JArr []" and fieldValue = "JArr [JStr ''a'']"
        and u = "value_field T_list (JArr [])" and before = "[]"
        and modelMap = "[''post'' \<mapsto> \<lparr>model_name = ''post'', model_fields =
          Some [\<lparr>field_name = ''title'', field_type = T_string\<rparr>,
                \<lparr>field_name = ''tags'', field_type = T_list\<rparr>]\<rparr>]"
        and manageUrl = "''https://example.com/project/example''" and ?out1.0 = "[]"
        and document = "\<lparr>ex_id = ''p1'', ex_type = ''post'', ex_status = ''draft'',
         ex_createdAt = ''2023-01-01'', ex_updatedAt = ''2023-01-02'',
         ex_fields = [(''title'', JStr ''Hi''), (''tags'', JArr [JStr ''a''])]\<rparr>"
        and m = "\<lparr>model_name = ''post'', model_fields =
          Some [\<lparr>field_name = ''title'', field_type = T_string\<rparr>,
                \<lparr>field_name = ''tags'', field_type = T_list\<rparr>]\<rparr>"
        and fs = "[\<lparr>field_name = ''title'', field_type = T_string\<rparr>,
                \<lparr>field_name = ''tags'', field_type = T_list\<rparr>]"
        and pre = "[(''title'', JStr ''Hi'')]" and k = "''tags''"
        and post = "[]" and f = "\<lparr>field_name = ''tags'', field_type = T_list\<rparr>" and after = "[]"]
    by (simp add: value_field_def composite_tags_def)
qed


section \<open>Lifecycle status\<close>

lemma convert_document_status:
  "convert_document modelMap manageUrl document = Inr d \<Longrightarrow>
   d_status d = document_status (ex_status document)"
  by (auto simp: convert_document_def split: sum.splits)

lemma convert_documents_status:
  "convertExampleDocumentsToStackbitDocuments documents modelMap manageUrl = Inr out \<Longrightarrow>
   map d_status out = map (\<lambda>d. document_status (ex_status d)) documents"
  unfolding convertExampleDocumentsToStackbitDocuments_def
  by (induction documents arbitrary: out) (auto split: sum.splits dest: convert_document_status)

text \<open>
  Claim C5: the status of every translated document is a fixed function of the native
  status alone: \<^verbatim>\<open>draft\<close> gives \<^verbatim>\<open>added\<close>, \<^verbatim>\<open>published\<close> gives \<^verbatim>\<open>published\<close>, and any other
  string gives \<^verbatim>\<open>modified\<close>.
\<close>

theorem status_mapping:
  assumes "convertExampleDocumentsToStackbitDocuments documents modelMap manageUrl = Inr out"
  shows "map d_status out =
           map (\<lambda>d. if ex_status d = ''draft'' then ''added''
                     else if ex_status d = ''published'' then ''published''
                     else ''modified'') documents"
  using convert_documents_status [OF assms] by (simp add: document_status_def)

theorem status_mapping_witness:
  "map d_status
     [\<lparr>d_type = ''document'', d_id = ''a'', d_modelName = ''post'', d_status = ''added'',
       d_manageUrl = ''u/document/a'', d_context = Map.empty, d_createdAt = ''c'', d_updatedAt = ''c'',
       d_fields = [''title'' \<mapsto> value_field T_string (JStr ''A'')]\<rparr>,
      \<lparr>d_type = ''document'', d_id = ''b'', d_modelName = ''post'', d_status = ''published'',
       d_manageUrl = ''u/document/b'', d_context = Map.empty, d_createdAt = ''c'', d_updatedAt = ''c'',
       d_fields = Map.empty\<rparr>,
      \<lparr>d_type = ''document'', d_id = ''c'', d_modelName = ''post'', d_status = ''modified'',
       d_manageUrl = ''u/document/c'', d_context = Map.empty, d_createdAt = ''c'', d_updatedAt = ''c'',
       d_fields = Map.empty\<rparr>] =
   [''added'', ''published'', ''modified'']
   \<and> convertExampleDocumentsToStackbitDocuments
     [\<lparr>ex_id = ''a'', ex_type = ''post'', ex_status = ''draft'', ex_createdAt = ''c'',
       ex_updatedAt = ''c'', ex_fields = [(''title'', JStr ''A'')]\<rparr>,
      \<lparr>ex_id = ''b'', ex_type = ''post'', ex_status = ''published'', ex_createdAt = ''c'',
       ex_updatedAt = ''c'', ex_fields = []\<rparr>,
      \<lparr>ex_id = ''c'', ex_type = ''post'', ex_status = ''changed'', ex_createdAt = ''c'',
       ex_updatedAt = ''c'', ex_fields = []\<rparr>]
     [''post'' \<mapsto> \<lparr>model_name = ''post'',
        model_fields = Some [\<lparr>field_name = ''title'', field_type = T_string\<rparr>]\<rparr>] ''u'' =
   Inr [\<lparr>d_type = ''document'', d_id = ''a'', d_modelName = ''post'', d_status = ''added'',
       d_manageUrl = ''u/document/a'', d_context = Map.empty, d_createdAt = ''c'', d_updatedAt = ''c'',
       d_fields = [''title'' \<mapsto> value_field T_string (JStr ''A'')]\<rparr>,
      \<lparr>d_type = ''document'', d_id = ''b'', d_modelName = ''post'', d_status = ''published'',
       d_manageUrl = ''u/document/b'', d_context = Map.empty, d_createdAt = ''c'', d_updatedAt = ''c'',
       d_fields = Map.empty\<rparr>,
      \<lparr>d_type = ''document'', d_id = ''c'', d_modelName = ''post'', d_status = ''modified'',
       d_manageUrl = ''u/document/c'', d_context = Map.empty, d_createdAt = ''c'', d_updatedAt = ''c'',
       d_fields = Map.empty\<rparr>]"
proof -
  have h: "convertExampleDocumentsToStackbitDocuments
     [\<lparr>ex_id = ''a'', ex_type = ''post'', ex_status = ''draft'', ex_createdAt = ''c'',
       ex_updatedAt = ''c'', ex_fields = [(''title'', JStr ''A'')]\<rparr>,
      \<lparr>ex_id = ''b'', ex_type = ''post'', ex_status = ''published'', ex_createdAt = ''c'',
       ex_updatedAt = ''c'', ex_fields = []\<rparr>,
      \<lparr>ex_id = ''c'', ex_type = ''post'', ex_status = ''changed'', ex_createdAt = ''c'',
       ex_updatedAt = ''c'', ex_fields = []\<rparr>]
     [''post'' \<mapsto> \<lparr>model_name = ''post'',
        model_fields = Some [\<lparr>field_name = ''title'', field_type = T_string\<rparr>]\<rparr>] ''u'' =
   Inr [\<lparr>d_type = ''document'', d_id = ''a'', d_modelName = ''post'', d_status = ''added'',
       d_manageUrl = ''u/document/a'', d_context = Map.empty, d_createdAt = ''c'', d_updatedAt = ''c'',
       d_fields = [''title'' \<mapsto> value_field T_string (JStr ''A'')]\<rparr>,
      \<lparr>d_type = ''document'', d_id = ''b'', d_modelName = ''post'', d_status = ''published'',
       d_manageUrl = ''u/document/b'', d_context = Map.empty, d_createdAt = ''c'', d_updatedAt = ''c'',
       d_fields = Map.empty\<rparr>,
      \<lparr>d_type = ''document'', d_id = ''c'', d_modelName = ''post'', d_status = ''modified'',
       d_manageUrl = ''u/document/c'', d_context = Map.empty, d_createdAt = ''c'', d_updatedAt = ''c'',
       d_fields = Map.empty\<rparr>]"
    by (simp add: convertExampleDocumentsToStackbitDocuments_def convert_document_def
        reduce_field_def document_status_def obj_lookup_def obj_set_def value_field_def)
  from status_mapping [OF h] h show ?thesis by simp
qed


section \<open>Update operations\<close>















section \<open>Capability probe and upload\<close>

text \<open>
  Claim C9: \<^verbatim>\<open>hasAccess\<close> answers that there is a connection and there are permissions,
  for every instance (local development or not) and with or without a user context.
\<close>

theorem has_access_always:
  "hasAccess this userContext = \<lparr>hasConnection = True, hasPermissions = True\<rparr>"
  by (simp add: hasAccess_def)

text \<open>
  Claim C8: \<^verbatim>\<open>uploadAsset\<close> fails with the error about base64 uploads when no source URL is
  given, that is when \<^verbatim>\<open>!options.url\<close> holds (the URL is absent or the empty string),
  whatever the base64 payload is; with a source URL it asks the store client to upload,
  with the file name as the title, and returns the translated asset (or the client's
  error).
\<close>

theorem upload_asset_requires_url:
  "(\<not> truthy (up_url options) \<longrightarrow>
      uploadAsset this clientUploadAsset options =
        Inl (Error ''uploading assets from base64 is not supported''))
   \<and> (up_url options = Some u \<and> u \<noteq> [] \<longrightarrow>
      uploadAsset this clientUploadAsset options =
        (case clientUploadAsset
                \<lparr>rq_url = u, rq_title = up_fileName options, rq_width = 100, rq_height = 100\<rparr> of
           Inl e \<Rightarrow> Inl e
         | Inr asset \<Rightarrow> Inr (convert_asset (cs_manageUrl this) (cs_siteLocalhost this) asset)))
   \<and> uploadAsset this clientUploadAsset (options\<lparr>up_base64 := b\<rparr>) =
       uploadAsset this clientUploadAsset options"
proof (intro conjI impI)
  assume "\<not> truthy (up_url options)"
  then show "uploadAsset this clientUploadAsset options =
        Inl (Error ''uploading assets from base64 is not supported'')"
    by (cases "up_url options") (simp_all add: uploadAsset_def)
next
  assume "up_url options = Some u \<and> u \<noteq> []"
  then show "uploadAsset this clientUploadAsset options =
        (case clientUploadAsset
                \<lparr>rq_url = u, rq_title = up_fileName options, rq_width = 100, rq_height = 100\<rparr> of
           Inl e \<Rightarrow> Inl e
         | Inr asset \<Rightarrow> Inr (convert_asset (cs_manageUrl this) (cs_siteLocalhost this) asset))"
    by (simp add: uploadAsset_def convertExampleAssetToStackbitAssets_def split: sum.splits)
next
  show "uploadAsset this clientUploadAsset (options\<lparr>up_base64 := b\<rparr>) =
       uploadAsset this clientUploadAsset options"
    by (simp add: uploadAsset_def split: option.splits)
qed

theorem upload_asset_requires_url_witness:
  "uploadAsset
     \<lparr>cs_projectId = ''example'', cs_databaseFilePath = None,
      cs_manageUrl = ''https://example.com/project/example'',
      cs_siteLocalhost = ''http://localhost:3000'', cs_localDev = True, cs_observerId = None\<rparr>
     (\<lambda>rq. Inr \<lparr>ea_id = ''a1'', ea_createdAt = ''t'', ea_updatedAt = ''t'', ea_title = rq_title rq,
                ea_url = rq_url rq, ea_width = rq_width rq, ea_height = rq_height rq\<rparr>)
     \<lparr>up_url = None, up_base64 = Some ''aGk='', up_fileName = ''hi.png'',
      up_mimeType = ''image/png'', up_locale = None\<rparr> =
     Inl (Error ''uploading assets from base64 is not supported'')
   \<and> uploadAsset
     \<lparr>cs_projectId = ''example'', cs_databaseFilePath = None,
      cs_manageUrl = ''https://example.com/project/example'',
      cs_siteLocalhost = ''http://localhost:3000'', cs_localDev = True, cs_observerId = None\<rparr>
     (\<lambda>rq. Inr \<lparr>ea_id = ''a1'', ea_createdAt = ''t'', ea_updatedAt = ''t'', ea_title = rq_title rq,
                ea_url = rq_url rq, ea_width = rq_width rq, ea_height = rq_height rq\<rparr>)
     \<lparr>up_url = Some ''/images/hi.png'', up_base64 = None, up_fileName = ''hi.png'',
      up_mimeType = ''image/png'', up_locale = None\<rparr> =
     Inr \<lparr>as_type = ''asset'', as_id = ''a1'', as_createdAt = ''t'', as_updatedAt = ''t'',
          as_status = ''published'',
          as_manageUrl = ''https://example.com/project/example/assets/a1'', as_context = Map.empty,
          as_title = value_field T_string (JStr ''hi.png''),
          as_file = \<lparr>af_type = ''assetFile'', af_url = ''http://localhost:3000/images/hi.png'',
                     af_width = 100, af_height = 100\<rparr>\<rparr>"
proof -
  let ?cs = "\<lparr>cs_projectId = ''example'', cs_databaseFilePath = None,
      cs_manageUrl = ''https://example.com/project/example'',
      cs_siteLocalhost = ''http://localhost:3000'', cs_localDev = True, cs_observerId = None\<rparr>"
  let ?client = "\<lambda>rq. Inr \<lparr>ea_id = ''a1'', ea_createdAt = ''t'', ea_updatedAt = ''t'',
      ea_title = rq_title rq, ea_url = rq_url rq, ea_width = rq_width rq, ea_height = rq_height rq\<rparr>"
  let ?none = "\<lparr>up_url = None, up_base64 = Some ''aGk='', up_fileName = ''hi.png'',
      up_mimeType = ''image/png'', up_locale = None\<rparr>"
  let ?some = "\<lparr>up_url = Some ''/images/hi.png'', up_base64 = None, up_fileName = ''hi.png'',
      up_mimeType = ''image/png'', up_locale = None\<rparr>"
  have n: "\<not> truthy (up_url ?none)" by simp
  have s: "up_url ?some = Some ''/images/hi.png'' \<and> ''/images/hi.png'' \<noteq> []" by simp
  have a: "uploadAsset ?cs ?client ?none = Inl (Error ''uploading assets from base64 is not supported'')"
    using upload_asset_requires_url [where options = ?none and this = ?cs and clientUploadAsset = ?client] n by blast
  have b: "uploadAsset ?cs ?client ?some =
      (case ?client \<lparr>rq_url = ''/images/hi.png'', rq_title = up_fileName ?some,
                      rq_width = 100, rq_height = 100\<rparr> of
         Inl e \<Rightarrow> Inl e
       | Inr asset \<Rightarrow> Inr (convert_asset (cs_manageUrl ?cs) (cs_siteLocalhost ?cs) asset))"
    using upload_asset_requires_url [where options = ?some and u = "''/images/hi.png''" and this = ?cs
        and clientUploadAsset = ?client] s by blast
  show ?thesis using a b by (simp add: convert_asset_def)
qed


section \<open>The change observer\<close>

lemma stop_never_started:
  "cs_observerId this = None \<Longrightarrow> stopWatchingContentUpdates this = (this, [])"
  by (simp add: stopWatchingContentUpdates_def)

lemma stop_keeps_handle:
  "cs_observerId this = Some h \<Longrightarrow> h \<noteq> [] \<Longrightarrow>
   stopWatchingContentUpdates this = (this, [StopObservingContentChanges h])"
  by (simp add: stopWatchingContentUpdates_def)

lemma start_while_watching:
  "cs_observerId this = Some h \<Longrightarrow> h \<noteq> [] \<Longrightarrow>
   startWatchingContentUpdates newId this =
     (this\<lparr>cs_observerId := Some newId\<rparr>,
      [StopObservingContentChanges h, StartObservingContentChanges])"
  by (simp add: startWatchingContentUpdates_def stopWatchingContentUpdates_def)

text \<open>
  Claim C3 says that a second \<^verbatim>\<open>stopWatchingContentUpdates\<close> in a row performs no
  unsubscribe action. \<^verbatim>\<open>stopWatchingContentUpdates\<close> tests the stored handle but never
  clears it: after a start that received the handle \<open>observer-1\<close> and a first stop,
  the second stop calls the client's \<^verbatim>\<open>stopObservingContentChanges\<close> with that handle
  again.
\<close>

theorem stop_twice_unsubscribes_twice:
  "snd (stopWatchingContentUpdates
     (fst (stopWatchingContentUpdates
        (fst (startWatchingContentUpdates ''observer-1''
           \<lparr>cs_projectId = ''example'', cs_databaseFilePath = None,
            cs_manageUrl = ''https://example.com/project/example'',
            cs_siteLocalhost = ''http://localhost:3000'', cs_localDev = True,
            cs_observerId = None\<rparr>))))) =
   [StopObservingContentChanges ''observer-1'']"
  by (simp add: startWatchingContentUpdates_def stopWatchingContentUpdates_def)

lemma event_step_deletedAssetIds:
  "event_step this modelMap contentChange event = Inr contentChange' \<Longrightarrow>
   cc_deletedAssetIds contentChange' = cc_deletedAssetIds contentChange"
  by (cases event) (auto simp: push_document_def split: sum.splits)

lemma js_reduce_deletedAssetIds:
  "js_reduce (event_step this modelMap) contentChange events = Inr contentChange' \<Longrightarrow>
   cc_deletedAssetIds contentChange' = cc_deletedAssetIds contentChange"
proof (induction events arbitrary: contentChange)
  case Nil
  then show ?case by simp
next
  case (Cons event events)
  then show ?case by (auto split: sum.splits dest: event_step_deletedAssetIds)
qed

lemma js_reduce_drop_other:
  "js_reduce (event_step this modelMap) contentChange
     (filter (\<lambda>event. case event of OtherEvent name \<Rightarrow> False | _ \<Rightarrow> True) events) =
   js_reduce (event_step this modelMap) contentChange events"
proof (induction events arbitrary: contentChange)
  case Nil
  then show ?case by simp
next
  case (Cons event events)
  then show ?case by (cases event) (simp_all split: sum.splits)
qed

text \<open>
  Claim C10: every batch that the observer's callback builds has an empty list of deleted
  asset ids; an event that is not one of the four kinds the loop knows leaves the batch as
  it is, so such events can be removed from the notification without changing the batch.
\<close>

theorem deleted_asset_ids_empty:
  "(observer_callback this modelMap events = Inr contentChange \<longrightarrow>
      cc_deletedAssetIds contentChange = [])
   \<and> event_step this modelMap batch (OtherEvent name) = Inr batch
   \<and> observer_callback this modelMap
        (filter (\<lambda>event. case event of OtherEvent name \<Rightarrow> False | _ \<Rightarrow> True) events) =
      observer_callback this modelMap events"
proof (intro conjI impI)
  assume "observer_callback this modelMap events = Inr contentChange"
  then show "cc_deletedAssetIds contentChange = []"
    unfolding observer_callback_def by (auto dest: js_reduce_deletedAssetIds)
next
  show "event_step this modelMap batch (OtherEvent name) = Inr batch" by simp
next
  show "observer_callback this modelMap
        (filter (\<lambda>event. case event of OtherEvent name \<Rightarrow> False | _ \<Rightarrow> True) events) =
      observer_callback this modelMap events"
    by (simp add: observer_callback_def js_reduce_drop_other)
qed

theorem deleted_asset_ids_empty_witness:
  "observer_callback
     \<lparr>cs_projectId = ''example'', cs_databaseFilePath = None,
      cs_manageUrl = ''https://example.com/project/example'',
      cs_siteLocalhost = ''http://localhost:3000'', cs_localDev = True,
      cs_observerId = Some ''observer-1''\<rparr>
     Map.empty
     [DocumentDeleted ''p1'', OtherEvent ''asset-deleted'',
      AssetCreated \<lparr>ea_id = ''a1'', ea_createdAt = ''t'', ea_updatedAt = ''t'', ea_title = ''hi'',
                    ea_url = ''/hi.png'', ea_width = 10, ea_height = 20\<rparr>] =
   Inr \<lparr>cc_documents = [],
        cc_assets = [convert_asset ''https://example.com/project/example'' ''http://localhost:3000''
                       \<lparr>ea_id = ''a1'', ea_createdAt = ''t'', ea_updatedAt = ''t'', ea_title = ''hi'',
                        ea_url = ''/hi.png'', ea_width = 10, ea_height = 20\<rparr>],
        cc_deletedDocumentIds = [''p1''],
        cc_deletedAssetIds = []\<rparr>
   \<and> cc_deletedAssetIds
       \<lparr>cc_documents = [],
        cc_assets = [convert_asset ''https://example.com/project/example'' ''http://localhost:3000''
                       \<lparr>ea_id = ''a1'', ea_createdAt = ''t'', ea_updatedAt = ''t'', ea_title = ''hi'',
                        ea_url = ''/hi.png'', ea_width = 10, ea_height = 20\<rparr>],
        cc_deletedDocumentIds = [''p1''],
        cc_deletedAssetIds = []\<rparr> = []"
proof -
  let ?cs = "\<lparr>cs_projectId = ''example'', cs_databaseFilePath = None,
      cs_manageUrl = ''https://example.com/project/example'',
      cs_siteLocalhost = ''http://localhost:3000'', cs_localDev = True,
      cs_observerId = Some ''observer-1''\<rparr>"
  let ?events = "[DocumentDeleted ''p1'', OtherEvent ''asset-deleted'',
      AssetCreated \<lparr>ea_id = ''a1'', ea_createdAt = ''t'', ea_updatedAt = ''t'', ea_title = ''hi'',
                    ea_url = ''/hi.png'', ea_width = 10, ea_height = 20\<rparr>]"
  let ?batch = "\<lparr>cc_documents = [],
        cc_assets = [convert_asset ''https://example.com/project/example'' ''http://localhost:3000''
                       \<lparr>ea_id = ''a1'', ea_createdAt = ''t'', ea_updatedAt = ''t'', ea_title = ''hi'',
                        ea_url = ''/hi.png'', ea_width = 10, ea_height = 20\<rparr>],
        cc_deletedDocumentIds = [''p1''],
        cc_deletedAssetIds = []\<rparr>"
  have h: "observer_callback ?cs Map.empty ?events = Inr ?batch"
    by (simp add: observer_callback_def convertExampleAssetToStackbitAssets_def)
  have "cc_deletedAssetIds ?batch = []"
    using deleted_asset_ids_empty [where this = ?cs and modelMap = Map.empty and events = ?events
        and contentChange = ?batch] h by blast
  with h show ?thesis by blast
qed

end
